theory Spec2Isabelle
  imports Main "HOL-Library.AList"
begin

section \<open>Values, exceptions and collaborators\<close>

text \<open>
  The controller of \<^verbatim>\<open>nova/api/openstack/servers.py\<close> is embedded function by
  function. A Python \<^verbatim>\<open>dict\<close> is an association list read with \<open>map_of\<close>, written
  with \<open>AList.update\<close> and popped with \<open>AList.delete\<close>. A deserialised request body is
  a JSON value; the Python operators used on it (\<^verbatim>\<open>in\<close>, subscription, \<^verbatim>\<open>.get\<close>,
  truth value, iteration) are written out with the exceptions they raise on the
  wrong kind of value. The decorator \<^verbatim>\<open>scheduler_api.redirect_handler\<close> is defined
  in another module; the functions below are the bodies of the methods it wraps.
\<close>

datatype json =
    JNull
  | JBool bool
  | JNum int
  | JStr string
  | JList "json list"
  | JObj "(string \<times> json) list"

text \<open>
  Exceptions. \<open>HTTPException n\<close> is a \<^verbatim>\<open>webob.exc\<close> exception with status \<open>n\<close> that
  was raised; the typed exceptions of \<^verbatim>\<open>nova.exception\<close> follow; \<open>OtherError\<close> is
  any exception that is none of the others.
\<close>

datatype exn =
    HTTPException nat
  | AdminRequired
  | Invalid
  | InvalidInput
  | NotFound
  | BuildInProgress
  | KeyError string
  | TypeError
  | ValueError
  | AttributeError
  | OtherError string

text \<open>\<^verbatim>\<open>except exception.Invalid\<close> catches the class and its subclass InvalidInput.\<close>

fun is_Invalid :: "exn \<Rightarrow> bool" where
  "is_Invalid Invalid = True"
| "is_Invalid InvalidInput = True"
| "is_Invalid _ = False"

text \<open>
  What a controller method returns: a \<^verbatim>\<open>webob.Response(status_int=n)\<close> (its body
  is empty), a \<^verbatim>\<open>webob.exc\<close> object that is returned rather than raised, a
  document for the serialiser, or \<^verbatim>\<open>None\<close>.
\<close>

datatype retval =
    Response nat string
  | HTTPReturned nat
  | Document json
  | NoneVal

record request_context =
  is_admin :: bool

text \<open>Values held by the search options: query strings, then the coerced values.\<close>

datatype optval =
    SStr string
  | SBool bool
  | SInt int
  | SStates "int list"

type_synonym search_options = "(string \<times> optval) list"

type_synonym server_instance = "(string \<times> json) list"

text \<open>
  The request: \<^verbatim>\<open>req.str_GET\<close> as the sequence of pairs that \<^verbatim>\<open>dict.update\<close>
  reads from it, \<^verbatim>\<open>req.environ['nova.context']\<close> and the raw \<^verbatim>\<open>req.body\<close>.
\<close>

record request =
  str_GET :: "(string \<times> string) list"
  nova_context :: request_context
  req_body :: string

text \<open>A call made on \<^verbatim>\<open>self.compute_api\<close>: the method, the context, the other arguments.\<close>

datatype call =
    GetAll request_context search_options
  | Compute string request_context "json list"

datatype version = V10 | V11

text \<open>
  The collaborators that are imported by the module and defined elsewhere are
  parameters of the model: the compute API (\<open>get_all\<close> returns the instances or
  raises; every other method raises or not, its value being discarded by the
  controller), \<^verbatim>\<open>power_state.states_from_status\<close>, \<^verbatim>\<open>utils.bool_from_str\<close>, the
  builtin \<^verbatim>\<open>int\<close> on a string, \<^verbatim>\<open>common.limited\<close> and
  \<^verbatim>\<open>common.limited_by_marker\<close>, the view builders, \<^verbatim>\<open>common.get_id_from_href\<close>,
  \<^verbatim>\<open>base64.b64decode\<close>, the helper's \<^verbatim>\<open>_validate_server_name\<close> and the
  string method \<^verbatim>\<open>strip\<close>.
\<close>

record env =
  get_all :: "request_context \<Rightarrow> search_options \<Rightarrow> exn + server_instance list"
  compute :: "string \<Rightarrow> request_context \<Rightarrow> json list \<Rightarrow> exn option"
  states_from_status :: "optval \<Rightarrow> int list"
  bool_from_str :: "optval \<Rightarrow> bool"
  py_int :: "string \<Rightarrow> int option"
  limit_items :: "version \<Rightarrow> server_instance list \<Rightarrow> request \<Rightarrow> exn + server_instance list"
  build_view :: "version \<Rightarrow> request \<Rightarrow> server_instance \<Rightarrow> bool \<Rightarrow> json"
  get_id_from_href :: "json \<Rightarrow> exn + json"
  b64decode :: "json \<Rightarrow> exn + string"
  validate_server_name :: "json \<Rightarrow> exn option"
  strip :: "json \<Rightarrow> exn + json"

text \<open>A method's result: the compute API calls it made, in order, and how it ended.\<close>

type_synonym result = "call list \<times> (exn + retval)"

section \<open>Option sanitizer\<close>

text \<open>
  \<^verbatim>\<open>check_admin_search_options(context, search_options, admin_api_options)\<close>, with
  \<^verbatim>\<open>FLAGS.allow_admin_api\<close> as its first argument. The dictionary is mutated in
  place, so the model returns it beside the outcome, also when it raises.
\<close>

definition check_admin_search_options ::
  "bool \<Rightarrow> request_context \<Rightarrow> search_options \<Rightarrow> string list \<Rightarrow> search_options \<times> (exn + unit)" where
  "check_admin_search_options allow_admin_api ctx search_opts admin_api_options =
     (if \<not> allow_admin_api then
        (foldl (\<lambda>d option. AList.delete option d) search_opts admin_api_options, Inr ())
      else if is_admin ctx then (search_opts, Inr ())
      else
        (let spec_admin_opts =
               filter (\<lambda>opt. opt \<in> set admin_api_options) (map fst search_opts)
         in if spec_admin_opts \<noteq> [] then (search_opts, Inl AdminRequired)
            else (search_opts, Inr ())))"

section \<open>Listing pipeline\<close>

text \<open>\<^verbatim>\<open>int(x)\<close> on a search option value.\<close>

fun int_of_optval :: "env \<Rightarrow> optval \<Rightarrow> exn + int" where
  "int_of_optval E (SStr s) = (case py_int E s of None \<Rightarrow> Inl ValueError | Some n \<Rightarrow> Inr n)"
| "int_of_optval E (SInt n) = Inr n"
| "int_of_optval E (SBool b) = Inr (if b then 1 else 0)"
| "int_of_optval E (SStates xs) = Inl TypeError"

text \<open>\<^verbatim>\<open>Controller._servers_search\<close>.\<close>

definition servers_search ::
  "env \<Rightarrow> version \<Rightarrow> request_context \<Rightarrow> request \<Rightarrow> bool \<Rightarrow> search_options \<Rightarrow> result" where
  "servers_search E v ctx req is_detail search_opts0 =
     (let status = map_of search_opts0 ''status'';
          search_opts1 = AList.delete ''status'' search_opts0;
          translated =
            (case status of
               None \<Rightarrow> Inr search_opts1
             | Some st \<Rightarrow>
                 (let search_opts2 =
                        AList.update ''state'' (SStates (states_from_status E st)) search_opts1
                  in if length (states_from_status E st) = 0 then Inl InvalidInput
                     else Inr search_opts2))
      in case translated of
           Inl e \<Rightarrow> ([], Inl e)
         | Inr search_opts3 \<Rightarrow>
             (let search_opts4 = AList.delete ''fresh'' (AList.delete ''changes-since'' search_opts3)
              in case get_all E ctx search_opts4 of
                   Inl e \<Rightarrow> ([GetAll ctx search_opts4], Inl e)
                 | Inr instance_list \<Rightarrow>
                     (case limit_items E v instance_list req of
                        Inl e \<Rightarrow> ([GetAll ctx search_opts4], Inl e)
                      | Inr limited_list \<Rightarrow>
                          ([GetAll ctx search_opts4],
                           Inr (Document (JObj [(''servers'',
                             JList (map (\<lambda>inst. build_view E v req inst is_detail)
                                        limited_list))]))))))"

text \<open>\<^verbatim>\<open>search_opts = {}; search_opts.update(req.str_GET)\<close>.\<close>

definition dict_of_query :: "(string \<times> string) list \<Rightarrow> search_options" where
  "dict_of_query q = foldl (\<lambda>d (k, x). AList.update k (SStr x) d) [] q"

definition admin_api :: "string list" where
  "admin_api = [''ip'', ''ip6'', ''instance_name'']"

text \<open>\<^verbatim>\<open>Controller._servers_from_request\<close>.\<close>

definition servers_from_request ::
  "bool \<Rightarrow> env \<Rightarrow> version \<Rightarrow> request \<Rightarrow> bool \<Rightarrow> result" where
  "servers_from_request allow_admin_api E v req is_detail =
     (let search_opts0 = dict_of_query (str_GET req);
          ctx = nova_context req
      in case check_admin_search_options allow_admin_api ctx search_opts0 admin_api of
           (search_opts1, Inl e) \<Rightarrow>
             (if e = AdminRequired then ([], Inl (HTTPException 403)) else ([], Inl e))
         | (search_opts1, Inr u) \<Rightarrow>
             (let search_opts2 =
                    AList.update ''recurse_zones''
                      (SBool (bool_from_str E
                         (case map_of search_opts1 ''recurse_zones'' of
                            None \<Rightarrow> SBool False
                          | Some x \<Rightarrow> x)))
                      search_opts1
              in case map_of search_opts2 ''flavor'' of
                   None \<Rightarrow> servers_search E v ctx req is_detail search_opts2
                 | Some f \<Rightarrow>
                     (case int_of_optval E f of
                        Inl e \<Rightarrow> ([], Inl e)
                      | Inr n \<Rightarrow>
                          servers_search E v ctx req is_detail
                            (AList.update ''flavor'' (SInt n) search_opts2))))"

text \<open>
  \<^verbatim>\<open>Controller.index\<close> and \<^verbatim>\<open>Controller.detail\<close>: Invalid becomes a returned 400,
  NotFound a returned 404, anything else that was raised goes on.
\<close>

definition listing :: "bool \<Rightarrow> env \<Rightarrow> version \<Rightarrow> request \<Rightarrow> bool \<Rightarrow> result" where
  "listing allow_admin_api E v req is_detail =
     (case servers_from_request allow_admin_api E v req is_detail of
        (cs, Inl e) \<Rightarrow>
          (if is_Invalid e then (cs, Inr (HTTPReturned 400))
           else if e = NotFound then (cs, Inr (HTTPReturned 404))
           else (cs, Inl e))
      | (cs, Inr servers) \<Rightarrow> (cs, Inr servers))"

definition index :: "bool \<Rightarrow> env \<Rightarrow> version \<Rightarrow> request \<Rightarrow> result" where
  "index allow_admin_api E v req = listing allow_admin_api E v req False"

definition detail :: "bool \<Rightarrow> env \<Rightarrow> version \<Rightarrow> request \<Rightarrow> result" where
  "detail allow_admin_api E v req = listing allow_admin_api E v req True"

section \<open>Python operators on deserialised bodies\<close>

definition bindE :: "exn + 'a \<Rightarrow> ('a \<Rightarrow> exn + 'b) \<Rightarrow> exn + 'b" where
  "bindE m f = (case m of Inl e \<Rightarrow> Inl e | Inr x \<Rightarrow> f x)"

text \<open>\<^verbatim>\<open>k in s\<close> on two strings: \<open>k\<close> occurs in \<open>s\<close> as a contiguous piece.\<close>

fun py_substr :: "string \<Rightarrow> string \<Rightarrow> bool" where
  "py_substr k [] = (k = [])"
| "py_substr k (c # cs) = (take (length k) (c # cs) = k \<or> py_substr k cs)"

text \<open>
  \<^verbatim>\<open>k in x\<close> for a string \<open>k\<close>: key membership in a dict, element membership in
  a list, substring test in a string, TypeError on None, a bool or a number.
\<close>

fun py_in :: "string \<Rightarrow> json \<Rightarrow> exn + bool" where
  "py_in k (JObj kvs) = Inr (k \<in> set (map fst kvs))"
| "py_in k (JList xs) = Inr (JStr k \<in> set xs)"
| "py_in k (JStr s) = Inr (py_substr k s)"
| "py_in k JNull = Inl TypeError"
| "py_in k (JBool b) = Inl TypeError"
| "py_in k (JNum n) = Inl TypeError"

text \<open>\<^verbatim>\<open>x[k]\<close> for a string \<open>k\<close>: KeyError on a dict without it, TypeError elsewhere.\<close>

fun py_getitem :: "json \<Rightarrow> string \<Rightarrow> exn + json" where
  "py_getitem (JObj kvs) k = (case map_of kvs k of None \<Rightarrow> Inl (KeyError k) | Some x \<Rightarrow> Inr x)"
| "py_getitem (JList xs) k = Inl TypeError"
| "py_getitem (JStr s) k = Inl TypeError"
| "py_getitem JNull k = Inl TypeError"
| "py_getitem (JBool b) k = Inl TypeError"
| "py_getitem (JNum n) k = Inl TypeError"

text \<open>\<^verbatim>\<open>x[k] = y\<close> for a string \<open>k\<close>.\<close>

fun py_setitem :: "json \<Rightarrow> string \<Rightarrow> json \<Rightarrow> exn + json" where
  "py_setitem (JObj kvs) k y = Inr (JObj (AList.update k y kvs))"
| "py_setitem (JList xs) k y = Inl TypeError"
| "py_setitem (JStr s) k y = Inl TypeError"
| "py_setitem JNull k y = Inl TypeError"
| "py_setitem (JBool b) k y = Inl TypeError"
| "py_setitem (JNum n) k y = Inl TypeError"

text \<open>\<^verbatim>\<open>x.get(k, default)\<close>: only a dict has the method.\<close>

fun py_get :: "json \<Rightarrow> string \<Rightarrow> json \<Rightarrow> exn + json" where
  "py_get (JObj kvs) k dflt = (case map_of kvs k of None \<Rightarrow> Inr dflt | Some x \<Rightarrow> Inr x)"
| "py_get (JList xs) k dflt = Inl AttributeError"
| "py_get (JStr s) k dflt = Inl AttributeError"
| "py_get JNull k dflt = Inl AttributeError"
| "py_get (JBool b) k dflt = Inl AttributeError"
| "py_get (JNum n) k dflt = Inl AttributeError"

text \<open>The truth value of \<^verbatim>\<open>x\<close> in \<^verbatim>\<open>if x\<close> and \<^verbatim>\<open>not x\<close>.\<close>

fun py_truthy :: "json \<Rightarrow> bool" where
  "py_truthy JNull = False"
| "py_truthy (JBool b) = b"
| "py_truthy (JNum n) = (n \<noteq> 0)"
| "py_truthy (JStr s) = (s \<noteq> [])"
| "py_truthy (JList xs) = (xs \<noteq> [])"
| "py_truthy (JObj kvs) = (kvs \<noteq> [])"

text \<open>\<^verbatim>\<open>for y in x\<close>: the elements of a list, the keys of a dict, the characters of a string.\<close>

fun py_iter :: "json \<Rightarrow> exn + json list" where
  "py_iter (JList xs) = Inr xs"
| "py_iter (JObj kvs) = Inr (map (\<lambda>kv. JStr (fst kv)) kvs)"
| "py_iter (JStr s) = Inr (map (\<lambda>c. JStr [c]) s)"
| "py_iter JNull = Inl TypeError"
| "py_iter (JBool b) = Inl TypeError"
| "py_iter (JNum n) = Inl TypeError"

text \<open>\<^verbatim>\<open>a in d and f in d[a]\<close>, the second test only when the first holds.\<close>

definition has_arg :: "string \<Rightarrow> string \<Rightarrow> json \<Rightarrow> exn + bool" where
  "has_arg a f d =
     bindE (py_in a d)
       (\<lambda>present. if present then bindE (py_getitem d a) (\<lambda>sub. py_in f sub) else Inr False)"

text \<open>\<^verbatim>\<open>d[a][f]\<close>.\<close>

definition get_arg :: "string \<Rightarrow> string \<Rightarrow> json \<Rightarrow> exn + json" where
  "get_arg a f d = bindE (py_getitem d a) (\<lambda>sub. py_getitem sub f)"

section \<open>Lifecycle actions with one backend call\<close>

text \<open>
  \<^verbatim>\<open>lock\<close>, \<^verbatim>\<open>unlock\<close>, \<^verbatim>\<open>get_lock\<close>, \<^verbatim>\<open>reset_network\<close>, \<^verbatim>\<open>inject_network_info\<close>,
  \<^verbatim>\<open>pause\<close>, \<^verbatim>\<open>unpause\<close>, \<^verbatim>\<open>suspend\<close>, \<^verbatim>\<open>resume\<close>, \<^verbatim>\<open>rescue\<close> and \<^verbatim>\<open>unrescue\<close> have
  one body up to the name of the compute method: the call inside \<^verbatim>\<open>try\<close>, a bare
  \<^verbatim>\<open>except:\<close> that raises HTTPUnprocessableEntity, and
  \<^verbatim>\<open>webob.Response(status_int=202)\<close> returned otherwise.
\<close>

definition try_compute_422 :: "env \<Rightarrow> string \<Rightarrow> request \<Rightarrow> string \<Rightarrow> result" where
  "try_compute_422 E method req sid =
     (let ctx = nova_context req
      in case compute E method ctx [JStr sid] of
           Some e \<Rightarrow> ([Compute method ctx [JStr sid]], Inl (HTTPException 422))
         | None \<Rightarrow> ([Compute method ctx [JStr sid]], Inr (Response 202 [])))"

definition lock :: "env \<Rightarrow> request \<Rightarrow> string \<Rightarrow> result" where
  "lock E req sid = try_compute_422 E ''lock'' req sid"

definition unlock :: "env \<Rightarrow> request \<Rightarrow> string \<Rightarrow> result" where
  "unlock E req sid = try_compute_422 E ''unlock'' req sid"

definition get_lock :: "env \<Rightarrow> request \<Rightarrow> string \<Rightarrow> result" where
  "get_lock E req sid = try_compute_422 E ''get_lock'' req sid"

definition reset_network :: "env \<Rightarrow> request \<Rightarrow> string \<Rightarrow> json \<Rightarrow> result" where
  "reset_network E req sid body = try_compute_422 E ''reset_network'' req sid"

definition inject_network_info :: "env \<Rightarrow> request \<Rightarrow> string \<Rightarrow> json \<Rightarrow> result" where
  "inject_network_info E req sid body = try_compute_422 E ''inject_network_info'' req sid"

definition pause :: "env \<Rightarrow> request \<Rightarrow> string \<Rightarrow> json \<Rightarrow> result" where
  "pause E req sid body = try_compute_422 E ''pause'' req sid"

definition unpause :: "env \<Rightarrow> request \<Rightarrow> string \<Rightarrow> json \<Rightarrow> result" where
  "unpause E req sid body = try_compute_422 E ''unpause'' req sid"

definition suspend :: "env \<Rightarrow> request \<Rightarrow> string \<Rightarrow> json \<Rightarrow> result" where
  "suspend E req sid body = try_compute_422 E ''suspend'' req sid"

definition resume :: "env \<Rightarrow> request \<Rightarrow> string \<Rightarrow> json \<Rightarrow> result" where
  "resume E req sid body = try_compute_422 E ''resume'' req sid"

definition rescue :: "env \<Rightarrow> request \<Rightarrow> string \<Rightarrow> result" where
  "rescue E req sid = try_compute_422 E ''rescue'' req sid"

definition unrescue :: "env \<Rightarrow> request \<Rightarrow> string \<Rightarrow> result" where
  "unrescue E req sid = try_compute_422 E ''unrescue'' req sid"

text \<open>
  \<^verbatim>\<open>get_ajax_console\<close> and \<^verbatim>\<open>get_vnc_console\<close>: \<^verbatim>\<open>int(id)\<close> is evaluated before the
  call, and the only handler is \<^verbatim>\<open>except exception.NotFound\<close>.
\<close>

definition try_console :: "env \<Rightarrow> string \<Rightarrow> request \<Rightarrow> string \<Rightarrow> result" where
  "try_console E method req sid =
     (let ctx = nova_context req
      in case py_int E sid of
           None \<Rightarrow> ([], Inl ValueError)
         | Some n \<Rightarrow>
             (case compute E method ctx [JNum n] of
                Some e \<Rightarrow>
                  (if e = NotFound then ([Compute method ctx [JNum n]], Inl (HTTPException 404))
                   else ([Compute method ctx [JNum n]], Inl e))
              | None \<Rightarrow> ([Compute method ctx [JNum n]], Inr (Response 202 []))))"

definition get_ajax_console :: "env \<Rightarrow> request \<Rightarrow> string \<Rightarrow> result" where
  "get_ajax_console E req sid = try_console E ''get_ajax_console'' req sid"

definition get_vnc_console :: "env \<Rightarrow> request \<Rightarrow> string \<Rightarrow> result" where
  "get_vnc_console E req sid = try_console E ''get_vnc_console'' req sid"

section \<open>Action handlers\<close>

text \<open>
  Each handler takes \<^verbatim>\<open>(input_dict, req, id)\<close>. The base class's
  \<^verbatim>\<open>_action_change_password\<close> is the legacy one; both versions override
  \<^verbatim>\<open>_action_resize\<close> and \<^verbatim>\<open>_action_rebuild\<close>.
\<close>

definition action_change_password_v10 :: "env \<Rightarrow> json \<Rightarrow> request \<Rightarrow> string \<Rightarrow> result" where
  "action_change_password_v10 E input_dict req sid = ([], Inr (HTTPReturned 501))"

definition action_confirm_resize :: "env \<Rightarrow> json \<Rightarrow> request \<Rightarrow> string \<Rightarrow> result" where
  "action_confirm_resize E input_dict req sid =
     (let ctx = nova_context req
      in case compute E ''confirm_resize'' ctx [JStr sid] of
           Some e \<Rightarrow> ([Compute ''confirm_resize'' ctx [JStr sid]], Inl (HTTPException 400))
         | None \<Rightarrow> ([Compute ''confirm_resize'' ctx [JStr sid]], Inr (HTTPReturned 204)))"

definition action_revert_resize :: "env \<Rightarrow> json \<Rightarrow> request \<Rightarrow> string \<Rightarrow> result" where
  "action_revert_resize E input_dict req sid =
     (let ctx = nova_context req
      in case compute E ''revert_resize'' ctx [JStr sid] of
           Some e \<Rightarrow> ([Compute ''revert_resize'' ctx [JStr sid]], Inl (HTTPException 400))
         | None \<Rightarrow> ([Compute ''revert_resize'' ctx [JStr sid]], Inr (Response 202 [])))"

text \<open>
  \<^verbatim>\<open>_action_reboot\<close>: the test of the two keys is outside the \<^verbatim>\<open>try\<close>; the
  reboot type is read and not passed on.
\<close>

definition action_reboot :: "env \<Rightarrow> json \<Rightarrow> request \<Rightarrow> string \<Rightarrow> result" where
  "action_reboot E input_dict req sid =
     (case has_arg ''reboot'' ''type'' input_dict of
        Inl e \<Rightarrow> ([], Inl e)
      | Inr False \<Rightarrow> ([], Inl (HTTPException 422))
      | Inr True \<Rightarrow>
          (case get_arg ''reboot'' ''type'' input_dict of
             Inl e \<Rightarrow> ([], Inl e)
           | Inr reboot_type \<Rightarrow>
               (let ctx = nova_context req
                in case compute E ''reboot'' ctx [JStr sid] of
                     Some e \<Rightarrow> ([Compute ''reboot'' ctx [JStr sid]], Inl (HTTPException 422))
                   | None \<Rightarrow> ([Compute ''reboot'' ctx [JStr sid]], Inr (Response 202 [])))))"

definition action_migrate :: "env \<Rightarrow> json \<Rightarrow> request \<Rightarrow> string \<Rightarrow> result" where
  "action_migrate E input_dict req sid =
     (let ctx = nova_context req
      in case compute E ''resize'' ctx [JStr sid] of
           Some e \<Rightarrow> ([Compute ''resize'' ctx [JStr sid]], Inl (HTTPException 400))
         | None \<Rightarrow> ([Compute ''resize'' ctx [JStr sid]], Inr (Response 202 [])))"

text \<open>\<^verbatim>\<open>ControllerV10._action_resize\<close>: no \<^verbatim>\<open>try\<close> around the call.\<close>

definition action_resize_v10 :: "env \<Rightarrow> json \<Rightarrow> request \<Rightarrow> string \<Rightarrow> result" where
  "action_resize_v10 E input_dict req sid =
     (case has_arg ''resize'' ''flavorId'' input_dict of
        Inl e \<Rightarrow> ([], Inl e)
      | Inr True \<Rightarrow>
          (case get_arg ''resize'' ''flavorId'' input_dict of
             Inl e \<Rightarrow> ([], Inl e)
           | Inr flavor_id \<Rightarrow>
               (let ctx = nova_context req
                in case compute E ''resize'' ctx [JStr sid, flavor_id] of
                     Some e \<Rightarrow> ([Compute ''resize'' ctx [JStr sid, flavor_id]], Inl e)
                   | None \<Rightarrow>
                       ([Compute ''resize'' ctx [JStr sid, flavor_id]], Inr (Response 202 []))))
      | Inr False \<Rightarrow> ([], Inl (HTTPException 422)))"

text \<open>
  \<^verbatim>\<open>ControllerV11._action_resize\<close>: the test, the resolution of the reference, the
  call and the \<^verbatim>\<open>raise exc.HTTPUnprocessableEntity()\<close> of the \<^verbatim>\<open>else\<close> branch are
  all inside one \<^verbatim>\<open>try\<close> whose handler is \<^verbatim>\<open>except Exception\<close>; the \<^verbatim>\<open>webob.exc\<close>
  classes derive from \<^verbatim>\<open>Exception\<close>. \<open>resize_v11_body\<close> is the body of the
  \<^verbatim>\<open>try\<close>.
\<close>

definition resize_v11_body :: "env \<Rightarrow> json \<Rightarrow> request \<Rightarrow> string \<Rightarrow> call list \<times> (exn + unit)" where
  "resize_v11_body E input_dict req sid =
     (case has_arg ''resize'' ''flavorRef'' input_dict of
        Inl e \<Rightarrow> ([], Inl e)
      | Inr True \<Rightarrow>
          (case get_arg ''resize'' ''flavorRef'' input_dict of
             Inl e \<Rightarrow> ([], Inl e)
           | Inr flavor_ref \<Rightarrow>
               (case get_id_from_href E flavor_ref of
                  Inl e \<Rightarrow> ([], Inl e)
                | Inr flavor_id \<Rightarrow>
                    (let ctx = nova_context req
                     in case compute E ''resize'' ctx [JStr sid, flavor_id] of
                          Some e \<Rightarrow> ([Compute ''resize'' ctx [JStr sid, flavor_id]], Inl e)
                        | None \<Rightarrow> ([Compute ''resize'' ctx [JStr sid, flavor_id]], Inr ()))))
      | Inr False \<Rightarrow> ([], Inl (HTTPException 422)))"

definition action_resize_v11 :: "env \<Rightarrow> json \<Rightarrow> request \<Rightarrow> string \<Rightarrow> result" where
  "action_resize_v11 E input_dict req sid =
     (case resize_v11_body E input_dict req sid of
        (cs, Inl e) \<Rightarrow> (cs, Inl (HTTPException 400))
      | (cs, Inr u) \<Rightarrow> (cs, Inr (Response 202 [])))"

text \<open>
  \<^verbatim>\<open>ControllerV11._action_change_password\<close>: the two 400 answers are returned,
  not raised; \<^verbatim>\<open>isinstance(password, basestring)\<close> holds of a string only.
\<close>

definition action_change_password_v11 :: "env \<Rightarrow> json \<Rightarrow> request \<Rightarrow> string \<Rightarrow> result" where
  "action_change_password_v11 E input_dict req sid =
     (let ctx = nova_context req
      in case has_arg ''changePassword'' ''adminPass'' input_dict of
           Inl e \<Rightarrow> ([], Inl e)
         | Inr False \<Rightarrow> ([], Inr (HTTPReturned 400))
         | Inr True \<Rightarrow>
             (case get_arg ''changePassword'' ''adminPass'' input_dict of
                Inl e \<Rightarrow> ([], Inl e)
              | Inr password \<Rightarrow>
                  (if (case password of JStr s \<Rightarrow> s = [] | _ \<Rightarrow> True)
                   then ([], Inr (HTTPReturned 400))
                   else
                     (case compute E ''set_admin_password'' ctx [JStr sid, password] of
                        Some e \<Rightarrow> ([Compute ''set_admin_password'' ctx [JStr sid, password]], Inl e)
                      | None \<Rightarrow>
                          ([Compute ''set_admin_password'' ctx [JStr sid, password]],
                           Inr (Response 202 []))))))"

text \<open>\<^verbatim>\<open>except (KeyError, TypeError)\<close>.\<close>

fun is_KeyError_or_TypeError :: "exn \<Rightarrow> bool" where
  "is_KeyError_or_TypeError (KeyError k) = True"
| "is_KeyError_or_TypeError TypeError = True"
| "is_KeyError_or_TypeError _ = False"

text \<open>The call of \<^verbatim>\<open>compute_api.rebuild\<close> with its handler for BuildInProgress.\<close>

definition try_rebuild :: "env \<Rightarrow> request_context \<Rightarrow> json list \<Rightarrow> result" where
  "try_rebuild E ctx args =
     (case compute E ''rebuild'' ctx args of
        Some e \<Rightarrow>
          (if e = BuildInProgress then ([Compute ''rebuild'' ctx args], Inl (HTTPException 409))
           else ([Compute ''rebuild'' ctx args], Inl e))
      | None \<Rightarrow> ([Compute ''rebuild'' ctx args], Inr (Response 202 [])))"

text \<open>\<^verbatim>\<open>ControllerV10._action_rebuild\<close>.\<close>

definition action_rebuild_v10 :: "env \<Rightarrow> json \<Rightarrow> request \<Rightarrow> string \<Rightarrow> result" where
  "action_rebuild_v10 E info req instance_id =
     (let ctx = nova_context req
      in case get_arg ''rebuild'' ''imageId'' info of
           Inl e \<Rightarrow>
             (if is_KeyError_or_TypeError e then ([], Inl (HTTPException 400)) else ([], Inl e))
         | Inr image_id \<Rightarrow> try_rebuild E ctx [JStr instance_id, image_id])"

text \<open>\<^verbatim>\<open>ControllerV11._validate_metadata\<close>: only a dict has \<^verbatim>\<open>iteritems\<close>.\<close>

fun validate_metadata :: "json \<Rightarrow> exn option" where
  "validate_metadata (JObj kvs) = None"
| "validate_metadata _ = Some (HTTPException 400)"

text \<open>
  \<^verbatim>\<open>ControllerV11._decode_personalities\<close>, on the items that the loop visits; the
  decoded contents replace the encoded ones in each item.
\<close>

fun decode_items :: "env \<Rightarrow> json list \<Rightarrow> exn + json list" where
  "decode_items E [] = Inr []"
| "decode_items E (personality # rest) =
     (case bindE (py_getitem personality ''path'')
             (\<lambda>path. py_getitem personality ''contents'') of
        Inl e \<Rightarrow> (if is_KeyError_or_TypeError e then Inl (HTTPException 400) else Inl e)
      | Inr contents \<Rightarrow>
          (case bindE (b64decode E contents)
                  (\<lambda>decoded. py_setitem personality ''contents'' (JStr decoded)) of
             Inl e \<Rightarrow> (if e = TypeError then Inl (HTTPException 400) else Inl e)
           | Inr personality' \<Rightarrow>
               (case decode_items E rest of
                  Inl e \<Rightarrow> Inl e
                | Inr rest' \<Rightarrow> Inr (personality' # rest'))))"

definition decode_personalities :: "env \<Rightarrow> json \<Rightarrow> exn + json" where
  "decode_personalities E personalities =
     (case py_iter personalities of
        Inl e \<Rightarrow> Inl e
      | Inr items \<Rightarrow>
          (case decode_items E items of
             Inl e \<Rightarrow> Inl e
           | Inr items' \<Rightarrow>
               Inr (case personalities of JList xs \<Rightarrow> JList items' | other \<Rightarrow> other)))"

text \<open>\<^verbatim>\<open>ControllerV11._action_rebuild\<close>.\<close>

definition action_rebuild_v11 :: "env \<Rightarrow> json \<Rightarrow> request \<Rightarrow> string \<Rightarrow> result" where
  "action_rebuild_v11 E info req instance_id =
     (let ctx = nova_context req
      in case get_arg ''rebuild'' ''imageRef'' info of
           Inl e \<Rightarrow>
             (if is_KeyError_or_TypeError e then ([], Inl (HTTPException 400)) else ([], Inl e))
         | Inr image_href \<Rightarrow>
             (case bindE (py_getitem info ''rebuild'') (\<lambda>r.
                   bindE (py_get r ''personality'' (JList [])) (\<lambda>personalities.
                   bindE (py_get r ''metadata'' JNull) (\<lambda>metadata.
                   bindE (py_get r ''name'' JNull) (\<lambda>name.
                   bindE (if py_truthy metadata
                          then (case validate_metadata metadata of
                                  Some e \<Rightarrow> Inl e
                                | None \<Rightarrow> Inr ())
                          else Inr ()) (\<lambda>u.
                   bindE (decode_personalities E personalities) (\<lambda>personalities'.
                   Inr [JStr instance_id, image_href, name, metadata, personalities'])))))) of
                Inl e \<Rightarrow> ([], Inl e)
              | Inr args \<Rightarrow> try_rebuild E ctx args))"

section \<open>Action dispatcher\<close>

text \<open>The keys of the \<^verbatim>\<open>actions\<close> table, in the order of the dict literal.\<close>

definition action_names :: "string list" where
  "action_names =
     [''changePassword'', ''reboot'', ''resize'', ''confirmResize'', ''revertResize'',
      ''rebuild'', ''migrate'']"

text \<open>\<^verbatim>\<open>actions[key]\<close> for the two controllers.\<close>

definition action_handler ::
  "version \<Rightarrow> string \<Rightarrow> env \<Rightarrow> json \<Rightarrow> request \<Rightarrow> string \<Rightarrow> result" where
  "action_handler v key =
     (if key = ''changePassword'' then
        (case v of V10 \<Rightarrow> action_change_password_v10 | V11 \<Rightarrow> action_change_password_v11)
      else if key = ''reboot'' then action_reboot
      else if key = ''resize'' then
        (case v of V10 \<Rightarrow> action_resize_v10 | V11 \<Rightarrow> action_resize_v11)
      else if key = ''confirmResize'' then action_confirm_resize
      else if key = ''revertResize'' then action_revert_resize
      else if key = ''rebuild'' then
        (case v of V10 \<Rightarrow> action_rebuild_v10 | V11 \<Rightarrow> action_rebuild_v11)
      else if key = ''migrate'' then action_migrate
      else (\<lambda>E input_dict req sid. ([], Inl (KeyError key))))"

text \<open>
  The loop of \<^verbatim>\<open>Controller.action\<close> over \<^verbatim>\<open>actions.keys()\<close>. Beside the result it
  returns the keys whose handler it invoked; this list is not in the source and
  only records the dispatch.
\<close>

fun action_scan ::
  "env \<Rightarrow> version \<Rightarrow> request \<Rightarrow> string \<Rightarrow> json \<Rightarrow> string list \<Rightarrow> string list \<times> result" where
  "action_scan E v req sid body [] = ([], [], Inl (HTTPException 501))"
| "action_scan E v req sid body (key # keys) =
     (case py_in key body of
        Inl e \<Rightarrow> ([], [], Inl e)
      | Inr True \<Rightarrow> ([key], action_handler v key E body req sid)
      | Inr False \<Rightarrow> action_scan E v req sid body keys)"

text \<open>
  \<^verbatim>\<open>Controller.action\<close>. The order in which \<^verbatim>\<open>actions.keys()\<close> lists the keys of
  the table is the interpreter's, so it is the argument \<open>keys\<close>.
\<close>

definition action ::
  "env \<Rightarrow> version \<Rightarrow> string list \<Rightarrow> request \<Rightarrow> string \<Rightarrow> json \<Rightarrow> string list \<times> result" where
  "action E v keys req sid body = action_scan E v req sid body keys"

section \<open>Update and delete\<close>

text \<open>
  \<^verbatim>\<open>_parse_update\<close>: the base class's does nothing and is the current
  controller's; the legacy one sets the admin password when the body gives one.
\<close>

definition parse_update ::
  "env \<Rightarrow> version \<Rightarrow> request_context \<Rightarrow> string \<Rightarrow> json \<Rightarrow> call list \<times> exn option" where
  "parse_update E v ctx server_id inst_dict =
     (case v of
        V11 \<Rightarrow> ([], None)
      | V10 \<Rightarrow>
          (case bindE (py_getitem inst_dict ''server'') (\<lambda>server. py_in ''adminPass'' server) of
             Inl e \<Rightarrow> ([], Some e)
           | Inr False \<Rightarrow> ([], None)
           | Inr True \<Rightarrow>
               (case get_arg ''server'' ''adminPass'' inst_dict of
                  Inl e \<Rightarrow> ([], Some e)
                | Inr password \<Rightarrow>
                    ([Compute ''set_admin_password'' ctx [JStr server_id, password]],
                     compute E ''set_admin_password'' ctx [JStr server_id, password]))))"

text \<open>
  The part of \<^verbatim>\<open>Controller.update\<close> that fills \<^verbatim>\<open>update_dict\<close>:
  \<^verbatim>\<open>body['server']\<close> is subscripted before anything looks for the key.
\<close>

definition update_dict_of :: "env \<Rightarrow> json \<Rightarrow> exn + (string \<times> json) list" where
  "update_dict_of E body =
     bindE (py_getitem body ''server'') (\<lambda>server.
     bindE (py_in ''name'' server) (\<lambda>has_name.
       if has_name then
         bindE (get_arg ''server'' ''name'' body) (\<lambda>name.
           case validate_server_name E name of
             Some e \<Rightarrow> Inl e
           | None \<Rightarrow> bindE (strip E name) (\<lambda>stripped. Inr [(''display_name'', stripped)]))
       else Inr []))"

text \<open>\<^verbatim>\<open>Controller.update\<close>.\<close>

definition update :: "env \<Rightarrow> version \<Rightarrow> request \<Rightarrow> string \<Rightarrow> json \<Rightarrow> result" where
  "update E v req sid body =
     (if length (req_body req) = 0 then ([], Inl (HTTPException 422))
      else if \<not> py_truthy body then ([], Inl (HTTPException 422))
      else
        (let ctxt = nova_context req
         in case update_dict_of E body of
              Inl e \<Rightarrow> ([], Inl e)
            | Inr update_dict \<Rightarrow>
                (case parse_update E v ctxt sid body of
                   (cs, Some e) \<Rightarrow> (cs, Inl e)
                 | (cs, None) \<Rightarrow>
                     (case compute E ''update'' ctxt [JStr sid, JObj update_dict] of
                        Some e \<Rightarrow>
                          (if e = NotFound
                           then (cs @ [Compute ''update'' ctxt [JStr sid, JObj update_dict]],
                                 Inl (HTTPException 404))
                           else (cs @ [Compute ''update'' ctxt [JStr sid, JObj update_dict]],
                                 Inl e))
                      | None \<Rightarrow>
                          (cs @ [Compute ''update'' ctxt [JStr sid, JObj update_dict]],
                           Inr (HTTPReturned 204))))))"

text \<open>
  \<^verbatim>\<open>ControllerV10.delete\<close> ends with \<^verbatim>\<open>return webob.Response(status_int=202)\<close>;
  \<^verbatim>\<open>ControllerV11.delete\<close> has no \<^verbatim>\<open>return\<close> and so returns \<^verbatim>\<open>None\<close>.
\<close>

definition delete :: "env \<Rightarrow> version \<Rightarrow> request \<Rightarrow> string \<Rightarrow> result" where
  "delete E v req sid =
     (let ctx = nova_context req
      in case compute E ''delete'' ctx [JStr sid] of
           Some e \<Rightarrow>
             (if e = NotFound then ([Compute ''delete'' ctx [JStr sid]], Inl (HTTPException 404))
              else ([Compute ''delete'' ctx [JStr sid]], Inl e))
         | None \<Rightarrow>
             (case v of
                V10 \<Rightarrow> ([Compute ''delete'' ctx [JStr sid]], Inr (Response 202 []))
              | V11 \<Rightarrow> ([Compute ''delete'' ctx [JStr sid]], Inr NoneVal)))"

record http_response =
  status_int :: nat
  response_body :: string

text \<open>\<^verbatim>\<open>HeadersSerializer.delete(response, data)\<close>.\<close>

definition headers_serializer_delete :: "http_response \<Rightarrow> http_response" where
  "headers_serializer_delete response = response\<lparr>status_int := 204\<rparr>"

text \<open>
  Modelled from the spec: the resource wrapper of \<^verbatim>\<open>nova.api.openstack.wsgi\<close>,
  which is not in this file. It answers with the response object that a method
  returned as it is; when the method returned nothing it starts from an empty
  response with status 200 and applies the post-processing step of the
  serialiser for the action, here \<open>headers_serializer_delete\<close> (section 4.4:
  "legacy: 202; current: 204 with forced empty body via a response
  post-processing step"). What it does with a document or an exception is not
  modelled.
\<close>

fun serialize_delete :: "retval \<Rightarrow> http_response option" where
  "serialize_delete (Response n b) = Some \<lparr>status_int = n, response_body = b\<rparr>"
| "serialize_delete NoneVal =
     Some (headers_serializer_delete \<lparr>status_int = 200, response_body = []\<rparr>)"
| "serialize_delete (HTTPReturned n) = None"
| "serialize_delete (Document d) = None"

definition resource_delete ::
  "env \<Rightarrow> version \<Rightarrow> request \<Rightarrow> string \<Rightarrow> call list \<times> (exn + http_response option)" where
  "resource_delete E v req sid =
     (case delete E v req sid of
        (cs, Inl e) \<Rightarrow> (cs, Inl e)
      | (cs, Inr r) \<Rightarrow> (cs, Inr (serialize_delete r)))"

section \<open>Concrete collaborators for running the model\<close>

text \<open>
  An optionally signed decimal numeral between optional blanks, the strings on
  which \<^verbatim>\<open>int\<close> succeeds here; used where the model is run on an input.
\<close>

definition is_blank :: "char \<Rightarrow> bool" where
  "is_blank c = (c \<in> set [CHR '' '', CHR 0x09, CHR 0x0A, CHR 0x0B, CHR 0x0C, CHR 0x0D])"

definition trim :: "string \<Rightarrow> string" where
  "trim s = rev (dropWhile is_blank (rev (dropWhile is_blank s)))"

fun digits_value :: "int \<Rightarrow> string \<Rightarrow> int option" where
  "digits_value acc [] = Some acc"
| "digits_value acc (c # cs) =
     (if c \<in> set ''0123456789''
      then digits_value (10 * acc + (int (of_char c) - 48)) cs
      else None)"

definition decimal_int :: "string \<Rightarrow> int option" where
  "decimal_int s =
     (case trim s of
        [] \<Rightarrow> None
      | c # cs \<Rightarrow>
          (if c = CHR ''-'' then (if cs = [] then None else map_option uminus (digits_value 0 cs))
           else if c = CHR ''+'' then (if cs = [] then None else digits_value 0 cs)
           else digits_value 0 (c # cs)))"

text \<open>The last segment of a reference, read as a numeral.\<close>

definition id_of_href :: "json \<Rightarrow> exn + json" where
  "id_of_href href =
     (case href of
        JStr s \<Rightarrow>
          (case decimal_int (rev (takeWhile (\<lambda>c. c \<noteq> CHR ''/'') (rev s))) of
             None \<Rightarrow> Inl (HTTPException 400)
           | Some n \<Rightarrow> Inr (JNum n))
      | _ \<Rightarrow> Inl (HTTPException 400))"

text \<open>
  A backend on which every call succeeds and no server exists, a status table
  that knows ACTIVE only, and the simplest instances of the other collaborators.
\<close>

definition quiet_env :: env where
  "quiet_env =
     \<lparr>get_all = (\<lambda>ctx opts. Inr []),
      compute = (\<lambda>method ctx args. None),
      states_from_status = (\<lambda>st. if st = SStr ''ACTIVE'' then [1] else []),
      bool_from_str = (\<lambda>x. x = SStr ''true'' \<or> x = SStr ''1''),
      py_int = decimal_int,
      limit_items = (\<lambda>v items req. Inr items),
      build_view = (\<lambda>v req inst is_detail. JObj inst),
      get_id_from_href = id_of_href,
      b64decode = (\<lambda>contents. case contents of JStr s \<Rightarrow> Inr s | _ \<Rightarrow> Inl TypeError),
      validate_server_name = (\<lambda>name. None),
      strip = (\<lambda>name. case name of JStr s \<Rightarrow> Inr (JStr (trim s)) | _ \<Rightarrow> Inl AttributeError)\<rparr>"

text \<open>The same with a backend on which every call raises the given exception.\<close>

definition failing_env :: "exn \<Rightarrow> env" where
  "failing_env e = quiet_env\<lparr>get_all := (\<lambda>ctx opts. Inl e), compute := (\<lambda>method ctx args. Some e)\<rparr>"

definition user_context :: request_context where
  "user_context = \<lparr>is_admin = False\<rparr>"

definition admin_context :: request_context where
  "admin_context = \<lparr>is_admin = True\<rparr>"

text \<open>A request of a caller with the given query and raw body.\<close>

definition request_of :: "request_context \<Rightarrow> (string \<times> string) list \<Rightarrow> string \<Rightarrow> request" where
  "request_of ctx query raw = \<lparr>str_GET = query, nova_context = ctx, req_body = raw\<rparr>"

section \<open>What the listing pipeline computes, step by step\<close>

text \<open>
  Two functions derived from the bodies above, used to state what reaches the
  backend: \<open>prepared\<close> is the coercion of \<^verbatim>\<open>recurse_zones\<close> and \<^verbatim>\<open>flavor\<close> in
  \<^verbatim>\<open>_servers_from_request\<close>, and \<open>sent_options\<close> is the dictionary that
  \<^verbatim>\<open>_servers_search\<close> passes to \<^verbatim>\<open>get_all\<close>, or nothing when it raises before the
  call. The lemmas \<open>servers_from_request_unfold\<close> and \<open>fst_servers_search\<close> below
  prove that they agree with the definitions translated from the source.
\<close>

definition prepared :: "env \<Rightarrow> search_options \<Rightarrow> exn + search_options" where
  "prepared E so1 =
     (let so2 = AList.update ''recurse_zones''
                  (SBool (bool_from_str E
                     (case map_of so1 ''recurse_zones'' of None \<Rightarrow> SBool False | Some x \<Rightarrow> x)))
                  so1
      in case map_of so2 ''flavor'' of
           None \<Rightarrow> Inr so2
         | Some f \<Rightarrow>
             (case int_of_optval E f of
                Inl e \<Rightarrow> Inl e
              | Inr n \<Rightarrow> Inr (AList.update ''flavor'' (SInt n) so2)))"

definition sent_options :: "env \<Rightarrow> search_options \<Rightarrow> search_options option" where
  "sent_options E so =
     (case map_of so ''status'' of
        None \<Rightarrow> Some (AList.delete ''fresh'' (AList.delete ''changes-since'' (AList.delete ''status'' so)))
      | Some st \<Rightarrow>
          if states_from_status E st = [] then None
          else Some (AList.delete ''fresh'' (AList.delete ''changes-since''
                 (AList.update ''state'' (SStates (states_from_status E st)) (AList.delete ''status'' so)))))"

section \<open>The handlers of the lifecycle actions, listed\<close>

text \<open>
  The eleven handlers that share the bare \<^verbatim>\<open>except:\<close>, each with the compute
  method it calls (those that take a body ignore it), and the two console
  handlers.
\<close>

definition guarded_handlers :: "json \<Rightarrow> (string \<times> (env \<Rightarrow> request \<Rightarrow> string \<Rightarrow> result)) list" where
  "guarded_handlers body =
     [(''lock'', lock), (''unlock'', unlock), (''get_lock'', get_lock),
      (''reset_network'', \<lambda>E req sid. reset_network E req sid body),
      (''inject_network_info'', \<lambda>E req sid. inject_network_info E req sid body),
      (''pause'', \<lambda>E req sid. pause E req sid body),
      (''unpause'', \<lambda>E req sid. unpause E req sid body),
      (''suspend'', \<lambda>E req sid. suspend E req sid body),
      (''resume'', \<lambda>E req sid. resume E req sid body),
      (''rescue'', rescue), (''unrescue'', unrescue)]"

definition console_handlers :: "(string \<times> (env \<Rightarrow> request \<Rightarrow> string \<Rightarrow> result)) list" where
  "console_handlers =
     [(''get_ajax_console'', get_ajax_console), (''get_vnc_console'', get_vnc_console)]"

section \<open>Dictionaries built from a query\<close>

lemma keys_foldl_update:
  "fst ` set (foldl (\<lambda>d (k, x). AList.update k (SStr x) d) acc q) = fst ` set acc \<union> fst ` set q"
proof (induction q arbitrary: acc)
  case Nil
  then show ?case by simp
next
  case (Cons p q)
  obtain k x where p: "p = (k, x)" by (cases p)
  have "fst ` set (AList.update k (SStr x) acc) = {k} \<union> fst ` set acc"
    by (rule dom_update)
  then show ?case using Cons[of "AList.update k (SStr x) acc"] p
    by (simp add: Un_assoc Un_commute insert_commute)
qed

lemma keys_dict_of_query: "fst ` set (dict_of_query q) = fst ` set q"
  by (simp add: dict_of_query_def keys_foldl_update)

lemma delete_foldl_update:
  "AList.delete k (foldl (\<lambda>d (k, x). AList.update k (SStr x) d) acc q) =
   foldl (\<lambda>d (k, x). AList.update k (SStr x) d) (AList.delete k acc) (filter (\<lambda>(k', x). k' \<noteq> k) q)"
proof (induction q arbitrary: acc)
  case Nil
  then show ?case by simp
next
  case (Cons p q)
  obtain k' x where p: "p = (k', x)" by (cases p)
  show ?case
  proof (cases "k' = k")
    case True
    then show ?thesis using Cons[of "AList.update k' (SStr x) acc"] p
      by (simp add: delete_update_same)
  next
    case False
    then show ?thesis using Cons[of "AList.update k' (SStr x) acc"] p
      by (simp add: delete_update)
  qed
qed

lemma delete_dict_of_query:
  "AList.delete k (dict_of_query q) = dict_of_query (filter (\<lambda>(k', x). k' \<noteq> k) q)"
  by (simp add: dict_of_query_def delete_foldl_update)

lemma strip_admin_dict_of_query:
  "foldl (\<lambda>d option. AList.delete option d) (dict_of_query q) admin_api =
   dict_of_query (filter (\<lambda>(k, x). k \<notin> set admin_api) q)"
  apply (simp add: admin_api_def delete_dict_of_query)
  apply (rule arg_cong[where f=dict_of_query])
  apply (rule filter_cong)
   apply (auto)
  done

section \<open>The option sanitizer as a gate\<close>

lemma spec_admin_opts_nonempty:
  "filter (\<lambda>opt. opt \<in> set admin_api) (map fst so) \<noteq> [] \<longleftrightarrow>
   (\<exists>k. k \<in> set admin_api \<and> k \<in> fst ` set so)"
  by (auto simp: filter_empty_conv)

text \<open>
  C1. While the admin API is enabled, a listing request of a caller who is not
  admin and whose query holds one of \<^verbatim>\<open>ip\<close>, \<^verbatim>\<open>ip6\<close>, \<^verbatim>\<open>instance_name\<close> fails:
  the sanitizer raises AdminRequired and leaves the search options as they were,
  the request raises HTTPForbidden (403), and no call reaches the backend, for
  \<^verbatim>\<open>index\<close> and \<^verbatim>\<open>detail\<close> alike.
\<close>

theorem admin_required_is_forbidden:
  assumes "\<not> is_admin (nova_context req)"
    and "k \<in> set admin_api"
    and "k \<in> fst ` set (str_GET req)"
  shows "check_admin_search_options True (nova_context req) (dict_of_query (str_GET req)) admin_api
           = (dict_of_query (str_GET req), Inl AdminRequired)
         \<and> servers_from_request True E v req is_detail = ([], Inl (HTTPException 403))
         \<and> index True E v req = ([], Inl (HTTPException 403))
         \<and> detail True E v req = ([], Inl (HTTPException 403))"
proof -
  have k: "k \<in> fst ` set (dict_of_query (str_GET req))"
    using assms(3) by (simp add: keys_dict_of_query)
  have ne: "filter (\<lambda>opt. opt \<in> set admin_api) (map fst (dict_of_query (str_GET req))) \<noteq> []"
    using assms(2) k unfolding spec_admin_opts_nonempty by blast
  have c: "check_admin_search_options True (nova_context req) (dict_of_query (str_GET req)) admin_api
           = (dict_of_query (str_GET req), Inl AdminRequired)"
    using assms(1) ne by (simp add: check_admin_search_options_def Let_def)
  have s: "\<And>d. servers_from_request True E v req d = ([], Inl (HTTPException 403))"
    by (simp add: servers_from_request_def Let_def c)
  show ?thesis
    by (simp add: c s index_def detail_def listing_def)
qed

theorem admin_required_is_forbidden_witness:
  "index True quiet_env V11 (request_of user_context [(''name'', ''web''), (''ip'', ''10.0.0.1'')] [])
     = ([], Inl (HTTPException 403))"
  using admin_required_is_forbidden
    [of "request_of user_context [(''name'', ''web''), (''ip'', ''10.0.0.1'')] []" "''ip''" quiet_env V11]
  by (simp add: request_of_def user_context_def admin_api_def)

lemma fst_servers_search:
  "fst (servers_search E v ctx req is_detail so) =
     (case sent_options E so of None \<Rightarrow> [] | Some so' \<Rightarrow> [GetAll ctx so'])"
  unfolding servers_search_def sent_options_def Let_def
  by (simp split: option.splits sum.splits)

lemma disjoint_from_parts:
  "S \<subseteq> insert a T \<Longrightarrow> T \<subseteq> B \<union> K \<Longrightarrow> A \<inter> insert a B = {} \<Longrightarrow> A \<inter> K = {}
     \<Longrightarrow> A \<inter> S = {}"
  by blast

lemma subset_insert_trans: "S \<subseteq> T \<Longrightarrow> T \<subseteq> U \<Longrightarrow> S \<subseteq> insert a U"
  by blast

lemma subset_two_inserts:
  "S = {b} \<union> T \<Longrightarrow> T = {a} \<union> U \<Longrightarrow> S \<subseteq> {a, b} \<union> U"
  by blast

lemma subset_one_insert: "T = {a} \<union> U \<Longrightarrow> T \<subseteq> {a, b} \<union> U"
  by blast

lemma check_disabled:
  "check_admin_search_options False ctx (dict_of_query q) admin_api =
     (dict_of_query (filter (\<lambda>(k, x). k \<notin> set admin_api) q), Inr ())"
  by (simp add: check_admin_search_options_def strip_admin_dict_of_query)

lemma servers_from_request_unfold:
  "servers_from_request allow E v req is_detail =
     (case check_admin_search_options allow (nova_context req) (dict_of_query (str_GET req)) admin_api of
        (so1, Inl e) \<Rightarrow> (if e = AdminRequired then ([], Inl (HTTPException 403)) else ([], Inl e))
      | (so1, Inr u) \<Rightarrow>
          (case prepared E so1 of
             Inl e \<Rightarrow> ([], Inl e)
           | Inr so3 \<Rightarrow> servers_search E v (nova_context req) req is_detail so3))"
  unfolding servers_from_request_def prepared_def Let_def
  by (simp split: prod.splits sum.splits option.splits)

lemma fst_servers_from_request_disabled:
  "fst (servers_from_request False E v req is_detail) =
     (case prepared E (dict_of_query (filter (\<lambda>(k, x). k \<notin> set admin_api) (str_GET req))) of
        Inl e \<Rightarrow> []
      | Inr so3 \<Rightarrow> (case sent_options E so3 of None \<Rightarrow> [] | Some so' \<Rightarrow> [GetAll (nova_context req) so']))"
  by (simp add: servers_from_request_unfold check_disabled fst_servers_search split: sum.splits)

lemma fst_listing: "fst (listing allow E v req d) = fst (servers_from_request allow E v req d)"
  unfolding listing_def by (simp split: prod.splits sum.splits)

lemma keys_prepared:
  "prepared E so1 = Inr so3 \<Longrightarrow> fst ` set so3 \<subseteq> {''recurse_zones'', ''flavor''} \<union> fst ` set so1"
proof -
  assume a: "prepared E so1 = Inr so3"
  define so2 where "so2 = AList.update ''recurse_zones''
                  (SBool (bool_from_str E
                     (case map_of so1 ''recurse_zones'' of None \<Rightarrow> SBool False | Some x \<Rightarrow> x)))
                  so1"
  have k2: "fst ` set so2 = {''recurse_zones''} \<union> fst ` set so1"
    unfolding so2_def by (rule dom_update)
  have kf: "\<And>n. fst ` set (AList.update ''flavor'' (SInt n) so2) = {''flavor''} \<union> fst ` set so2"
    by (rule dom_update)
  from a have "so3 = so2 \<or> (\<exists>n. so3 = AList.update ''flavor'' (SInt n) so2)"
    unfolding prepared_def Let_def so2_def by (auto split: option.splits sum.splits)
  then show ?thesis
  proof (elim disjE exE)
    assume "so3 = so2"
    then show ?thesis using subset_one_insert[OF k2] by simp
  next
    fix n
    assume "so3 = AList.update ''flavor'' (SInt n) so2"
    then show ?thesis using subset_two_inserts[OF kf[of n] k2] by simp
  qed
qed

lemma keys_sent_options:
  "sent_options E so = Some so' \<Longrightarrow> fst ` set so' \<subseteq> insert ''state'' (fst ` set so)"
proof -
  have sub: "\<And>al. fst ` set (AList.delete ''fresh'' (AList.delete ''changes-since'' al)) \<subseteq> fst ` set al"
    by (meson dom_delete_subset subset_trans)
  have d: "fst ` set (AList.delete ''status'' so) \<subseteq> fst ` set so"
    by (rule dom_delete_subset)
  assume a: "sent_options E so = Some so'"
  show ?thesis
  proof (cases "map_of so ''status''")
    case None
    then have "so' = AList.delete ''fresh'' (AList.delete ''changes-since'' (AList.delete ''status'' so))"
      using a by (simp add: sent_options_def)
    then show ?thesis using subset_insert_trans[OF sub[of "AList.delete ''status'' so"] d] by simp
  next
    case (Some st)
    then have "so' = AList.delete ''fresh'' (AList.delete ''changes-since''
                 (AList.update ''state'' (SStates (states_from_status E st)) (AList.delete ''status'' so)))"
      using a by (simp add: sent_options_def split: if_splits)
    moreover have "fst ` set (AList.update ''state'' (SStates (states_from_status E st)) (AList.delete ''status'' so))
         \<subseteq> insert ''state'' (fst ` set so)"
      using insert_mono[OF d, of "''state''"] by (simp only: dom_update insert_is_Un[symmetric])
    ultimately show ?thesis
      using subset_trans[OF sub[of "AList.update ''state'' (SStates (states_from_status E st)) (AList.delete ''status'' so)"]]
      by simp
  qed
qed

lemma keys_filtered_query:
  "set admin_api \<inter> fst ` set (dict_of_query (filter (\<lambda>(k, x). k \<notin> set admin_api) q)) = {}"
  unfolding keys_dict_of_query by auto

text \<open>
  C2. While the admin API is disabled, for every caller, the sanitizer removes
  \<^verbatim>\<open>ip\<close>, \<^verbatim>\<open>ip6\<close> and \<^verbatim>\<open>instance_name\<close> and raises nothing; the calls that the
  listing makes on the backend are the same as for the query without these
  options, and no \<^verbatim>\<open>get_all\<close> call carries any of them.
\<close>

theorem admin_api_disabled_strips:
  "check_admin_search_options False ctx (dict_of_query (str_GET req)) admin_api =
     (dict_of_query (filter (\<lambda>(k, x). k \<notin> set admin_api) (str_GET req)), Inr ())
   \<and> fst (servers_from_request False E v req is_detail) =
       fst (servers_from_request False E v
              (req\<lparr>str_GET := filter (\<lambda>(k, x). k \<notin> set admin_api) (str_GET req)\<rparr>) is_detail)
   \<and> fst (listing False E v req is_detail) =
       fst (listing False E v
              (req\<lparr>str_GET := filter (\<lambda>(k, x). k \<notin> set admin_api) (str_GET req)\<rparr>) is_detail)
   \<and> (\<forall>c so. GetAll c so \<in> set (fst (listing False E v req is_detail))
         \<longrightarrow> set admin_api \<inter> fst ` set so = {})"
proof -
  let ?q = "filter (\<lambda>(k, x). k \<notin> set admin_api) (str_GET req)"
  have a: "fst (servers_from_request False E v req is_detail) =
       fst (servers_from_request False E v (req\<lparr>str_GET := ?q\<rparr>) is_detail)"
    by (simp add: fst_servers_from_request_disabled split: sum.splits option.splits)
  have b: "\<forall>c so. GetAll c so \<in> set (fst (servers_from_request False E v req is_detail))
         \<longrightarrow> set admin_api \<inter> fst ` set so = {}"
  proof (intro allI impI)
    fix c so
    assume m: "GetAll c so \<in> set (fst (servers_from_request False E v req is_detail))"
    have "\<exists>so3. prepared E (dict_of_query ?q) = Inr so3 \<and> sent_options E so3 = Some so"
    proof (cases "prepared E (dict_of_query ?q)")
      case (Inl e)
      then show ?thesis using m by (simp add: fst_servers_from_request_disabled)
    next
      case (Inr so3)
      then show ?thesis using m
        by (cases "sent_options E so3") (simp_all add: fst_servers_from_request_disabled)
    qed
    then obtain so3 where p: "prepared E (dict_of_query ?q) = Inr so3"
      and s: "sent_options E so3 = Some so"
      by blast
    have "set admin_api \<inter> insert ''state'' {''recurse_zones'', ''flavor''} = {}"
      by (simp add: admin_api_def)
    then show "set admin_api \<inter> fst ` set so = {}"
      by (rule disjoint_from_parts[OF keys_sent_options[OF s] keys_prepared[OF p] _
            keys_filtered_query[of "str_GET req"]])
  qed
  show ?thesis using a b by (simp add: check_disabled fst_listing)
qed

theorem admin_api_disabled_strips_witness:
  "fst (index False quiet_env V11 (request_of user_context [(''name'', ''web''), (''ip'', ''10.0.0.1'')] []))
     = [GetAll user_context [(''name'', SStr ''web''), (''recurse_zones'', SBool False)]]
   \<and> fst (index False quiet_env V11 (request_of user_context [(''name'', ''web'')] []))
     = [GetAll user_context [(''name'', SStr ''web''), (''recurse_zones'', SBool False)]]"
  using admin_api_disabled_strips
    [of user_context "request_of user_context [(''name'', ''web''), (''ip'', ''10.0.0.1'')] []" quiet_env V11 False]
  by (simp add: index_def request_of_def admin_api_def fst_listing fst_servers_from_request_disabled
      prepared_def sent_options_def dict_of_query_def quiet_env_def)

section \<open>Status translation and flavor coercion\<close>

lemma map_of_strip:
  "k \<notin> set ks \<Longrightarrow> map_of (foldl (\<lambda>d option. AList.delete option d) so ks) k = map_of so k"
  by (induction ks arbitrary: so) (simp_all add: delete_conv')

lemma check_passes:
  assumes "\<not> allow \<or> is_admin ctx \<or> set admin_api \<inter> fst ` set so = {}"
  shows "\<exists>so1. check_admin_search_options allow ctx so admin_api = (so1, Inr ())
            \<and> (\<forall>k. k \<notin> set admin_api \<longrightarrow> map_of so1 k = map_of so k)"
proof (cases "\<not> allow")
  case True
  then show ?thesis by (simp add: check_admin_search_options_def map_of_strip)
next
  case False
  show ?thesis
  proof (cases "is_admin ctx")
    case True
    then show ?thesis using False by (simp add: check_admin_search_options_def)
  next
    case na: False
    then have "set admin_api \<inter> fst ` set so = {}" using assms False by simp
    then have "filter (\<lambda>opt. opt \<in> set admin_api) (map fst so) = []"
      unfolding filter_empty_conv by auto
    then show ?thesis using False na by (simp add: check_admin_search_options_def)
  qed
qed

lemma servers_search_status:
  assumes "map_of so ''status'' = Some st"
  shows "(states_from_status E st = [] \<longrightarrow>
            servers_search E v ctx req is_detail so = ([], Inl InvalidInput))
       \<and> (states_from_status E st \<noteq> [] \<longrightarrow>
            (\<exists>so'. fst (servers_search E v ctx req is_detail so) = [GetAll ctx so']
               \<and> map_of so' ''state'' = Some (SStates (states_from_status E st))
               \<and> map_of so' ''status'' = None))"
proof (cases "states_from_status E st = []")
  case True
  then show ?thesis using assms by (simp add: servers_search_def)
next
  case False
  then show ?thesis using assms
    by (simp add: fst_servers_search sent_options_def delete_conv' update_conv')
qed

lemma prepared_ok:
  assumes "map_of so1 ''flavor'' = None \<or> (\<exists>s n. map_of so1 ''flavor'' = Some (SStr s) \<and> py_int E s = Some n)"
  shows "\<exists>so3. prepared E so1 = Inr so3 \<and> map_of so3 ''status'' = map_of so1 ''status''"
  using assms unfolding prepared_def Let_def
  by (auto simp: update_conv')

text \<open>
  C7, as amended. For a listing request whose query holds a status, that passes
  the option sanitizer (admin API disabled, or caller admin, or no privileged
  option) and whose flavor, if any, is a numeral: when the status has no power
  state the request is answered with a returned 400 and no backend call; when it
  has some, the one backend call is \<^verbatim>\<open>get_all\<close> with \<^verbatim>\<open>state\<close> set to that
  non-empty list and \<^verbatim>\<open>status\<close> removed.
\<close>

theorem status_translated_before_backend:
  assumes status: "map_of (dict_of_query (str_GET req)) ''status'' = Some st"
    and gate: "\<not> allow \<or> is_admin (nova_context req) \<or> set admin_api \<inter> fst ` set (str_GET req) = {}"
    and flavor: "map_of (dict_of_query (str_GET req)) ''flavor'' = None
                 \<or> (\<exists>s n. map_of (dict_of_query (str_GET req)) ''flavor'' = Some (SStr s)
                        \<and> py_int E s = Some n)"
  shows "(states_from_status E st = [] \<longrightarrow>
            listing allow E v req is_detail = ([], Inr (HTTPReturned 400)))
       \<and> (states_from_status E st \<noteq> [] \<longrightarrow>
            (\<exists>so. fst (listing allow E v req is_detail) = [GetAll (nova_context req) so]
               \<and> map_of so ''state'' = Some (SStates (states_from_status E st))
               \<and> states_from_status E st \<noteq> []
               \<and> map_of so ''status'' = None))"
proof -
  let ?so0 = "dict_of_query (str_GET req)"
  have "\<not> allow \<or> is_admin (nova_context req) \<or> set admin_api \<inter> fst ` set ?so0 = {}"
    using gate by (simp add: keys_dict_of_query)
  from check_passes[OF this] obtain so1 where
    c: "check_admin_search_options allow (nova_context req) ?so0 admin_api = (so1, Inr ())"
    and m: "\<forall>k. k \<notin> set admin_api \<longrightarrow> map_of so1 k = map_of ?so0 k"
    by blast
  have s1: "map_of so1 ''status'' = Some st"
    using m status by (simp add: admin_api_def)
  have f1: "map_of so1 ''flavor'' = map_of ?so0 ''flavor''"
    using m by (simp add: admin_api_def)
  from prepared_ok[of so1 E] flavor f1 obtain so3 where
    p: "prepared E so1 = Inr so3" and s3: "map_of so3 ''status'' = Some st"
    using s1 by auto
  have u: "servers_from_request allow E v req is_detail =
             servers_search E v (nova_context req) req is_detail so3"
    by (simp add: servers_from_request_unfold c p)
  show ?thesis
  proof (cases "states_from_status E st = []")
    case True
    then have "servers_search E v (nova_context req) req is_detail so3 = ([], Inl InvalidInput)"
      using servers_search_status[OF s3] by simp
    then show ?thesis using True u by (simp add: listing_def)
  next
    case False
    then show ?thesis
      using servers_search_status[OF s3, of E v "nova_context req" req is_detail] u
      by (simp add: fst_listing)
  qed
qed

theorem status_translated_before_backend_witness:
  "index True quiet_env V10 (request_of user_context [(''status'', ''bogus'')] [])
     = ([], Inr (HTTPReturned 400))
   \<and> fst (index True quiet_env V10 (request_of user_context [(''status'', ''ACTIVE'')] []))
     = [GetAll user_context [(''recurse_zones'', SBool False), (''state'', SStates [1])]]"
  using status_translated_before_backend
    [of "request_of user_context [(''status'', ''bogus'')] []" "SStr ''bogus''" True quiet_env V10 False]
    status_translated_before_backend
    [of "request_of user_context [(''status'', ''ACTIVE'')] []" "SStr ''ACTIVE''" True quiet_env V10 False]
  by (simp add: index_def request_of_def admin_api_def dict_of_query_def quiet_env_def
      user_context_def fst_listing servers_from_request_unfold check_admin_search_options_def
      prepared_def fst_servers_search sent_options_def)

text \<open>
  The claim without these conditions fails: with the admin API enabled, a caller
  who is not admin and sends \<^verbatim>\<open>status=bogus&ip=10.0.0.1\<close> gets 403, not 400.
\<close>

theorem status_gate_counterexample:
  "map_of (dict_of_query (str_GET (request_of user_context [(''status'', ''bogus''), (''ip'', ''10.0.0.1'')] [])))
      ''status'' = Some (SStr ''bogus'')
   \<and> states_from_status quiet_env (SStr ''bogus'') = []
   \<and> index True quiet_env V10 (request_of user_context [(''status'', ''bogus''), (''ip'', ''10.0.0.1'')] [])
       = ([], Inl (HTTPException 403))
   \<and> index True quiet_env V10 (request_of user_context [(''status'', ''bogus''), (''ip'', ''10.0.0.1'')] [])
       \<noteq> ([], Inr (HTTPReturned 400))"
  by (simp add: index_def listing_def servers_from_request_def check_admin_search_options_def
      request_of_def user_context_def admin_api_def dict_of_query_def quiet_env_def)

text \<open>
  Whenever the sanitizer lets the request pass and \<^verbatim>\<open>int\<close> rejects the flavor,
  the listing ends with the ValueError and without a backend call.
\<close>

lemma flavor_coercion_failure_propagates:
  assumes gate: "\<not> allow \<or> is_admin (nova_context req) \<or> set admin_api \<inter> fst ` set (str_GET req) = {}"
    and flavor: "map_of (dict_of_query (str_GET req)) ''flavor'' = Some (SStr s)"
    and bad: "py_int E s = None"
  shows "listing allow E v req is_detail = ([], Inl ValueError)"
proof -
  let ?so0 = "dict_of_query (str_GET req)"
  have "\<not> allow \<or> is_admin (nova_context req) \<or> set admin_api \<inter> fst ` set ?so0 = {}"
    using gate by (simp add: keys_dict_of_query)
  from check_passes[OF this] obtain so1 where
    c: "check_admin_search_options allow (nova_context req) ?so0 admin_api = (so1, Inr ())"
    and m: "\<forall>k. k \<notin> set admin_api \<longrightarrow> map_of so1 k = map_of ?so0 k"
    by blast
  have f1: "map_of so1 ''flavor'' = Some (SStr s)"
    using m flavor by (simp add: admin_api_def)
  have p: "prepared E so1 = Inl ValueError"
    using f1 bad by (simp add: prepared_def update_conv')
  show ?thesis
    by (simp add: listing_def servers_from_request_unfold c p)
qed

text \<open>
  C9. The query \<^verbatim>\<open>flavor=abc\<close>: \<^verbatim>\<open>int\<close> raises ValueError in
  \<^verbatim>\<open>_servers_from_request\<close>, which is neither \<^verbatim>\<open>exception.Invalid\<close> nor
  \<^verbatim>\<open>exception.NotFound\<close>, so \<^verbatim>\<open>index\<close> and \<^verbatim>\<open>detail\<close> let it through instead of
  answering 400.
\<close>

theorem flavor_not_numeric_unhandled:
  "index True quiet_env V10 (request_of user_context [(''flavor'', ''abc'')] []) = ([], Inl ValueError)
   \<and> detail True quiet_env V10 (request_of user_context [(''flavor'', ''abc'')] []) = ([], Inl ValueError)"
  by (simp add: index_def detail_def listing_def servers_from_request_def check_admin_search_options_def
      request_of_def user_context_def admin_api_def dict_of_query_def quiet_env_def
      decimal_int_def trim_def is_blank_def)

section \<open>Lifecycle actions\<close>

lemma try_compute_422_result:
  "fst (try_compute_422 E m req sid) = [Compute m (nova_context req) [JStr sid]]
   \<and> (compute E m (nova_context req) [JStr sid] = None \<longrightarrow>
        snd (try_compute_422 E m req sid) = Inr (Response 202 []))
   \<and> (\<forall>e. compute E m (nova_context req) [JStr sid] = Some e \<longrightarrow>
        snd (try_compute_422 E m req sid) = Inl (HTTPException 422))"
  by (simp add: try_compute_422_def Let_def split: option.splits)

lemma try_console_result:
  "py_int E sid = Some n \<Longrightarrow>
   fst (try_console E m req sid) = [Compute m (nova_context req) [JNum n]]
   \<and> (compute E m (nova_context req) [JNum n] = None \<longrightarrow>
        snd (try_console E m req sid) = Inr (Response 202 []))
   \<and> (compute E m (nova_context req) [JNum n] = Some NotFound \<longrightarrow>
        snd (try_console E m req sid) = Inl (HTTPException 404))
   \<and> (\<forall>e. compute E m (nova_context req) [JNum n] = Some e \<and> e \<noteq> NotFound \<longrightarrow>
        snd (try_console E m req sid) = Inl e)"
  by (simp add: try_console_def Let_def split: option.splits)

lemma guarded_handlers_are:
  "(m, h) \<in> set (guarded_handlers body) \<Longrightarrow> h = (\<lambda>E req sid. try_compute_422 E m req sid)"
  unfolding guarded_handlers_def
  by (auto simp: fun_eq_iff lock_def unlock_def get_lock_def reset_network_def
      inject_network_info_def pause_def unpause_def suspend_def resume_def rescue_def unrescue_def)

lemma console_handlers_are:
  "(m, h) \<in> set console_handlers \<Longrightarrow> h = (\<lambda>E req sid. try_console E m req sid)"
  unfolding console_handlers_def
  by (auto simp: fun_eq_iff get_ajax_console_def get_vnc_console_def)

text \<open>
  C3, as amended. Each of \<^verbatim>\<open>lock\<close>, \<^verbatim>\<open>unlock\<close>, \<^verbatim>\<open>get_lock\<close>, \<^verbatim>\<open>reset_network\<close>,
  \<^verbatim>\<open>inject_network_info\<close>, \<^verbatim>\<open>pause\<close>, \<^verbatim>\<open>unpause\<close>, \<^verbatim>\<open>suspend\<close>, \<^verbatim>\<open>resume\<close>,
  \<^verbatim>\<open>rescue\<close> and \<^verbatim>\<open>unrescue\<close> makes one backend call, answers 202 with an empty
  body when it succeeds and raises 422 on every backend exception, NotFound
  included. \<^verbatim>\<open>get_ajax_console\<close> and \<^verbatim>\<open>get_vnc_console\<close>, on a numeric id, make
  one backend call, answer 202 with an empty body when it succeeds, raise 404 on
  NotFound, and let every other backend exception through as it is.
\<close>

theorem lifecycle_actions_translate_errors:
  "((m, h) \<in> set (guarded_handlers body) \<longrightarrow>
      fst (h E req sid) = [Compute m (nova_context req) [JStr sid]]
      \<and> (compute E m (nova_context req) [JStr sid] = None \<longrightarrow>
           snd (h E req sid) = Inr (Response 202 []))
      \<and> (\<forall>e. compute E m (nova_context req) [JStr sid] = Some e \<longrightarrow>
           snd (h E req sid) = Inl (HTTPException 422)))
   \<and> ((m, h) \<in> set console_handlers \<and> py_int E sid = Some n \<longrightarrow>
      fst (h E req sid) = [Compute m (nova_context req) [JNum n]]
      \<and> (compute E m (nova_context req) [JNum n] = None \<longrightarrow>
           snd (h E req sid) = Inr (Response 202 []))
      \<and> (compute E m (nova_context req) [JNum n] = Some NotFound \<longrightarrow>
           snd (h E req sid) = Inl (HTTPException 404))
      \<and> (\<forall>e. compute E m (nova_context req) [JNum n] = Some e \<and> e \<noteq> NotFound \<longrightarrow>
           snd (h E req sid) = Inl e))"
proof (intro conjI impI)
  assume a: "(m, h) \<in> set (guarded_handlers body)"
  show "fst (h E req sid) = [Compute m (nova_context req) [JStr sid]]"
    using try_compute_422_result[of E m req sid] guarded_handlers_are[OF a] by simp
next
  assume a: "(m, h) \<in> set (guarded_handlers body)"
    and b: "compute E m (nova_context req) [JStr sid] = None"
  show "snd (h E req sid) = Inr (Response 202 [])"
    using try_compute_422_result[of E m req sid] guarded_handlers_are[OF a] b by simp
next
  assume a: "(m, h) \<in> set (guarded_handlers body)"
  show "\<forall>e. compute E m (nova_context req) [JStr sid] = Some e \<longrightarrow>
           snd (h E req sid) = Inl (HTTPException 422)"
    using try_compute_422_result[of E m req sid] guarded_handlers_are[OF a] by simp
next
  assume a: "(m, h) \<in> set console_handlers \<and> py_int E sid = Some n"
  show "fst (h E req sid) = [Compute m (nova_context req) [JNum n]]"
    using try_console_result[of E sid n m req] console_handlers_are[of m h] a by simp
next
  assume a: "(m, h) \<in> set console_handlers \<and> py_int E sid = Some n"
    and b: "compute E m (nova_context req) [JNum n] = None"
  show "snd (h E req sid) = Inr (Response 202 [])"
    using try_console_result[of E sid n m req] console_handlers_are[of m h] a b by simp
next
  assume a: "(m, h) \<in> set console_handlers \<and> py_int E sid = Some n"
    and b: "compute E m (nova_context req) [JNum n] = Some NotFound"
  show "snd (h E req sid) = Inl (HTTPException 404)"
    using try_console_result[of E sid n m req] console_handlers_are[of m h] a b by simp
next
  assume a: "(m, h) \<in> set console_handlers \<and> py_int E sid = Some n"
  show "\<forall>e. compute E m (nova_context req) [JNum n] = Some e \<and> e \<noteq> NotFound \<longrightarrow>
           snd (h E req sid) = Inl e"
    using try_console_result[of E sid n m req] console_handlers_are[of m h] a by simp
qed

theorem lifecycle_actions_translate_errors_witness:
  "snd (lock (failing_env NotFound) (request_of admin_context [] []) ''7'')
     = Inl (HTTPException 422)
   \<and> snd (pause quiet_env (request_of admin_context [] []) ''7'' JNull)
     = Inr (Response 202 [])
   \<and> snd (get_vnc_console (failing_env NotFound) (request_of admin_context [] []) ''7'')
     = Inl (HTTPException 404)
   \<and> snd (get_ajax_console quiet_env (request_of admin_context [] []) ''7'')
     = Inr (Response 202 [])"
proof -
  have d: "py_int quiet_env ''7'' = Some 7" "py_int (failing_env NotFound) ''7'' = Some 7"
    by (simp_all add: failing_env_def quiet_env_def decimal_int_def trim_def is_blank_def)
  have c: "\<And>m ctx args. compute (failing_env NotFound) m ctx args = Some NotFound"
    "\<And>m ctx args. compute quiet_env m ctx args = None"
    by (simp_all add: failing_env_def quiet_env_def)
  show ?thesis
    using lifecycle_actions_translate_errors
        [of "''lock''" lock JNull "failing_env NotFound" "request_of admin_context [] []" "''7''" 7]
      lifecycle_actions_translate_errors
        [of "''pause''" "\<lambda>E req sid. pause E req sid JNull" JNull quiet_env
            "request_of admin_context [] []" "''7''" 7]
      lifecycle_actions_translate_errors
        [of "''get_vnc_console''" get_vnc_console JNull "failing_env NotFound"
            "request_of admin_context [] []" "''7''" 7]
      lifecycle_actions_translate_errors
        [of "''get_ajax_console''" get_ajax_console JNull quiet_env
            "request_of admin_context [] []" "''7''" 7]
    by (simp add: guarded_handlers_def console_handlers_def d c)
qed

text \<open>
  The claim as stated fails on the console handlers: a backend exception other
  than NotFound leaves \<^verbatim>\<open>get_vnc_console\<close> as it was raised, not as a 422.
\<close>

theorem console_error_propagates_counterexample:
  "get_vnc_console (failing_env (OtherError ''boom'')) (request_of admin_context [] []) ''7''
     = ([Compute ''get_vnc_console'' admin_context [JNum 7]], Inl (OtherError ''boom''))"
  by (simp add: get_vnc_console_def try_console_def failing_env_def quiet_env_def request_of_def
      decimal_int_def trim_def is_blank_def)

section \<open>Resize, reboot, delete and update\<close>

text \<open>
  C5. The resize handlers run on four requests: the current version answers a
  body without \<^verbatim>\<open>resize.flavorRef\<close> with 400, because its own
  HTTPUnprocessableEntity is raised inside the \<^verbatim>\<open>try\<close> and caught by
  \<^verbatim>\<open>except Exception\<close>; the legacy version answers a body without
  \<^verbatim>\<open>resize.flavorId\<close> with 422; a backend exception leaves the legacy handler as
  it was raised and becomes 400 in the current one.
\<close>

theorem resize_status_codes_differ:
  "action_resize_v11 quiet_env (JObj [(''resize'', JObj [])]) (request_of user_context [] []) ''7''
     = ([], Inl (HTTPException 400))
   \<and> action_resize_v10 quiet_env (JObj [(''resize'', JObj [])]) (request_of user_context [] []) ''7''
     = ([], Inl (HTTPException 422))
   \<and> action_resize_v10 (failing_env (OtherError ''boom''))
       (JObj [(''resize'', JObj [(''flavorId'', JNum 3)])]) (request_of user_context [] []) ''7''
     = ([Compute ''resize'' user_context [JStr ''7'', JNum 3]], Inl (OtherError ''boom''))
   \<and> action_resize_v11 (failing_env (OtherError ''boom''))
       (JObj [(''resize'', JObj [(''flavorRef'', JStr ''http://host/flavors/3'')])])
       (request_of user_context [] []) ''7''
     = ([Compute ''resize'' user_context [JStr ''7'', JNum 3]], Inl (HTTPException 400))"
  by (simp add: action_resize_v11_def resize_v11_body_def action_resize_v10_def has_arg_def
      get_arg_def bindE_def failing_env_def quiet_env_def request_of_def id_of_href_def
      decimal_int_def trim_def is_blank_def)

lemma resize_v11_never_422:
  "snd (action_resize_v11 E input_dict req sid) \<noteq> Inl (HTTPException 422)"
  by (simp add: action_resize_v11_def split: prod.splits sum.splits)

text \<open>
  C6. The reboot handler on the body \<^verbatim>\<open>{"reboot": null}\<close>, which has no
  \<^verbatim>\<open>reboot.type\<close>: the test \<^verbatim>\<open>'type' in input_dict['reboot']\<close> raises TypeError
  outside any \<^verbatim>\<open>try\<close>, so the handler does not answer 422. No backend call is
  made.
\<close>

theorem reboot_null_unhandled:
  "action_reboot quiet_env (JObj [(''reboot'', JNull)]) (request_of user_context [] []) ''7''
     = ([], Inl TypeError)"
  by (simp add: action_reboot_def has_arg_def bindE_def)

text \<open>
  Where \<^verbatim>\<open>reboot\<close> is absent or is an object, the handler does what is expected
  of it: 422 and no backend call without \<^verbatim>\<open>type\<close>; with it one backend call,
  202 with an empty body on success and 422 on any backend exception.
\<close>

lemma reboot_of_object:
  assumes "map_of kvs ''reboot'' = None \<or> (\<exists>params. map_of kvs ''reboot'' = Some (JObj params))"
  shows "(has_arg ''reboot'' ''type'' (JObj kvs) = Inr False \<longrightarrow>
            action_reboot E (JObj kvs) req sid = ([], Inl (HTTPException 422)))
       \<and> (has_arg ''reboot'' ''type'' (JObj kvs) = Inr True \<longrightarrow>
            fst (action_reboot E (JObj kvs) req sid) = [Compute ''reboot'' (nova_context req) [JStr sid]]
            \<and> (compute E ''reboot'' (nova_context req) [JStr sid] = None \<longrightarrow>
                 snd (action_reboot E (JObj kvs) req sid) = Inr (Response 202 []))
            \<and> (\<forall>e. compute E ''reboot'' (nova_context req) [JStr sid] = Some e \<longrightarrow>
                 snd (action_reboot E (JObj kvs) req sid) = Inl (HTTPException 422)))
       \<and> (\<forall>e. has_arg ''reboot'' ''type'' (JObj kvs) \<noteq> Inl e)"
proof -
  have k: "(''reboot'' \<in> fst ` set kvs) = (map_of kvs ''reboot'' \<noteq> None)"
    by (simp add: map_of_eq_None_iff)
  from assms show ?thesis
  proof
    assume n: "map_of kvs ''reboot'' = None"
    then show ?thesis using k by (simp add: action_reboot_def has_arg_def bindE_def)
  next
    assume "\<exists>params. map_of kvs ''reboot'' = Some (JObj params)"
    then obtain params where p: "map_of kvs ''reboot'' = Some (JObj params)" by blast
    show ?thesis
    proof (cases "map_of params ''type''")
      case None
      then have "''type'' \<notin> fst ` set params" by (simp add: map_of_eq_None_iff)
      then show ?thesis using p k
        by (simp add: action_reboot_def has_arg_def bindE_def)
    next
      case (Some t)
      then have "''type'' \<in> fst ` set params"
        using map_of_eq_None_iff[of params "''type''"] by simp
      then show ?thesis using p k Some
        by (simp add: action_reboot_def has_arg_def get_arg_def bindE_def Let_def split: option.splits)
    qed
  qed
qed

text \<open>
  C8. When the backend's delete succeeds, the legacy controller returns a 202
  response and the current one returns nothing; \<^verbatim>\<open>HeadersSerializer.delete\<close> sets
  the status of the response it is given to 204 and leaves its body alone;
  through the resource wrapper the legacy answer is 202 and the current one is
  204 with an empty body.
\<close>

theorem delete_status_by_version:
  assumes "compute E ''delete'' (nova_context req) [JStr sid] = None"
  shows "delete E V10 req sid = ([Compute ''delete'' (nova_context req) [JStr sid]], Inr (Response 202 []))
       \<and> delete E V11 req sid = ([Compute ''delete'' (nova_context req) [JStr sid]], Inr NoneVal)
       \<and> status_int (headers_serializer_delete r) = 204
       \<and> response_body (headers_serializer_delete r) = response_body r
       \<and> snd (resource_delete E V10 req sid) = Inr (Some \<lparr>status_int = 202, response_body = []\<rparr>)
       \<and> snd (resource_delete E V11 req sid) = Inr (Some \<lparr>status_int = 204, response_body = []\<rparr>)"
  using assms
  by (simp add: delete_def resource_delete_def headers_serializer_delete_def Let_def)

theorem delete_status_by_version_witness:
  "snd (resource_delete quiet_env V10 (request_of user_context [] []) ''7'')
     = Inr (Some \<lparr>status_int = 202, response_body = []\<rparr>)
   \<and> snd (resource_delete quiet_env V11 (request_of user_context [] []) ''7'')
     = Inr (Some \<lparr>status_int = 204, response_body = []\<rparr>)"
proof -
  have c: "compute quiet_env ''delete'' (nova_context (request_of user_context [] [])) [JStr ''7''] = None"
    by (simp add: quiet_env_def)
  show ?thesis using delete_status_by_version[OF c] by simp
qed

text \<open>
  C10. An update whose raw body is not empty and whose parsed body is a
  non-empty object without the key \<^verbatim>\<open>server\<close> raises KeyError from
  \<^verbatim>\<open>body['server']\<close>, before any backend call and with no HTTP error in its
  place.
\<close>

theorem update_without_server_key_raises:
  assumes "req_body req \<noteq> []" and "kvs \<noteq> []" and "''server'' \<notin> fst ` set kvs"
  shows "update E v req sid (JObj kvs) = ([], Inl (KeyError ''server''))"
proof -
  have "map_of kvs ''server'' = None"
    using assms(3) by (simp add: map_of_eq_None_iff)
  then show ?thesis using assms(1,2)
    by (simp add: update_def update_dict_of_def bindE_def)
qed

theorem update_without_server_key_raises_witness:
  "update quiet_env V11 (request_of user_context [] ''{\"foo\": {}}'') ''7'' (JObj [(''foo'', JObj [])])
     = ([], Inl (KeyError ''server''))"
  using update_without_server_key_raises
    [of "request_of user_context [] ''{\"foo\": {}}''" "[(''foo'', JObj [])]" quiet_env V11 "''7''"]
  by (simp add: request_of_def)

section \<open>The action dispatcher\<close>

lemma calls_try_rebuild: "length (fst (try_rebuild E ctx args)) \<le> Suc 0"
  by (simp add: try_rebuild_def split: option.splits)

lemma calls_change_password_v10: "length (fst (action_change_password_v10 E d req sid)) \<le> Suc 0"
  by (simp add: action_change_password_v10_def)

lemma calls_change_password_v11: "length (fst (action_change_password_v11 E d req sid)) \<le> Suc 0"
  by (simp add: action_change_password_v11_def Let_def split: sum.splits bool.splits option.splits)

lemma calls_reboot: "length (fst (action_reboot E d req sid)) \<le> Suc 0"
  by (simp add: action_reboot_def Let_def split: sum.splits bool.splits option.splits)

lemma calls_resize_v10: "length (fst (action_resize_v10 E d req sid)) \<le> Suc 0"
  by (simp add: action_resize_v10_def Let_def split: sum.splits bool.splits option.splits)

lemma calls_resize_v11_body: "length (fst (resize_v11_body E d req sid)) \<le> Suc 0"
  by (simp add: resize_v11_body_def Let_def split: sum.splits bool.splits option.splits)

lemma calls_resize_v11: "length (fst (action_resize_v11 E d req sid)) \<le> Suc 0"
  using calls_resize_v11_body[of E d req sid]
  by (cases "resize_v11_body E d req sid") (simp add: action_resize_v11_def split: sum.splits)

lemma calls_confirm_resize: "length (fst (action_confirm_resize E d req sid)) \<le> Suc 0"
  by (simp add: action_confirm_resize_def Let_def split: option.splits)

lemma calls_revert_resize: "length (fst (action_revert_resize E d req sid)) \<le> Suc 0"
  by (simp add: action_revert_resize_def Let_def split: option.splits)

lemma calls_migrate: "length (fst (action_migrate E d req sid)) \<le> Suc 0"
  by (simp add: action_migrate_def Let_def split: option.splits)

lemma calls_rebuild_v10: "length (fst (action_rebuild_v10 E d req sid)) \<le> Suc 0"
  using calls_try_rebuild
  by (simp add: action_rebuild_v10_def Let_def split: sum.splits)

lemma calls_rebuild_v11: "length (fst (action_rebuild_v11 E d req sid)) \<le> Suc 0"
  using calls_try_rebuild
  by (simp add: action_rebuild_v11_def Let_def split: sum.splits)

lemma calls_action_handler: "length (fst (action_handler v key E d req sid)) \<le> Suc 0"
  unfolding action_handler_def
  by (cases v)
     (simp_all add: calls_change_password_v10 calls_change_password_v11 calls_reboot
        calls_resize_v10 calls_resize_v11 calls_confirm_resize calls_revert_resize
        calls_migrate calls_rebuild_v10 calls_rebuild_v11)

lemma action_scan_at_most_one:
  "length (fst (action_scan E v req sid body keys)) \<le> Suc 0
   \<and> length (fst (snd (action_scan E v req sid body keys))) \<le> Suc 0"
proof (induction keys)
  case Nil
  then show ?case by simp
next
  case (Cons key keys)
  show ?case
  proof (cases "py_in key body")
    case (Inl e)
    then show ?thesis by simp
  next
    case (Inr b)
    then show ?thesis using Cons calls_action_handler[of v key E body req sid]
      by (cases b) simp_all
  qed
qed

lemma action_scan_no_match:
  "set keys \<inter> fst ` set kvs = {} \<Longrightarrow>
   action_scan E v req sid (JObj kvs) keys = ([], [], Inl (HTTPException 501))"
  by (induction keys) simp_all

lemma action_scan_match:
  "set keys \<inter> fst ` set kvs \<noteq> {} \<Longrightarrow>
   \<exists>key. key \<in> set keys \<and> key \<in> fst ` set kvs
     \<and> action_scan E v req sid (JObj kvs) keys = ([key], action_handler v key E (JObj kvs) req sid)"
proof (induction keys)
  case Nil
  then show ?case by simp
next
  case (Cons k keys)
  show ?case
  proof (cases "k \<in> fst ` set kvs")
    case True
    then have "action_scan E v req sid (JObj kvs) (k # keys) = ([k], action_handler v k E (JObj kvs) req sid)"
      by simp
    then show ?thesis using True by (intro exI[of _ k]) simp
  next
    case False
    then have "set keys \<inter> fst ` set kvs \<noteq> {}" using Cons.prems by simp
    from Cons.IH[OF this] obtain key where
      k: "key \<in> set keys" "key \<in> fst ` set kvs"
      "action_scan E v req sid (JObj kvs) keys = ([key], action_handler v key E (JObj kvs) req sid)"
      by blast
    have "action_scan E v req sid (JObj kvs) (k # keys) = action_scan E v req sid (JObj kvs) keys"
      using False by simp
    then show ?thesis using k by (intro exI[of _ key]) simp
  qed
qed

text \<open>
  C4. For any order in which the keys of the table are scanned: the dispatcher
  invokes at most one handler and at most one backend call is made, whatever the
  body; on a body that is an object with no key of the table it raises 501 with
  no handler and no backend call; on one with one or more keys of the table (so
  also with two) it invokes exactly one handler, that of a key of the body, and
  its result is that handler's, with at most one backend call.
\<close>

theorem action_dispatches_at_most_once:
  assumes "set keys = set action_names"
  shows "length (fst (action E v keys req sid body)) \<le> 1
       \<and> length (fst (snd (action E v keys req sid body))) \<le> 1
       \<and> (set action_names \<inter> fst ` set kvs = {} \<longrightarrow>
            action E v keys req sid (JObj kvs) = ([], [], Inl (HTTPException 501)))
       \<and> (set action_names \<inter> fst ` set kvs \<noteq> {} \<longrightarrow>
            (\<exists>key. key \<in> set action_names \<and> key \<in> fst ` set kvs
               \<and> action E v keys req sid (JObj kvs)
                   = ([key], action_handler v key E (JObj kvs) req sid)
               \<and> length (fst (action_handler v key E (JObj kvs) req sid)) \<le> 1))"
proof (intro conjI impI)
  show "length (fst (action E v keys req sid body)) \<le> 1"
    using action_scan_at_most_one[of E v req sid body keys] by (simp add: action_def)
  show "length (fst (snd (action E v keys req sid body))) \<le> 1"
    using action_scan_at_most_one[of E v req sid body keys] by (simp add: action_def)
next
  assume "set action_names \<inter> fst ` set kvs = {}"
  then have "set keys \<inter> fst ` set kvs = {}" using assms by simp
  then show "action E v keys req sid (JObj kvs) = ([], [], Inl (HTTPException 501))"
    by (simp add: action_def action_scan_no_match)
next
  assume "set action_names \<inter> fst ` set kvs \<noteq> {}"
  then have "set keys \<inter> fst ` set kvs \<noteq> {}" using assms by simp
  from action_scan_match[OF this, of E v req sid] obtain key where
    k: "key \<in> set keys" "key \<in> fst ` set kvs"
    "action_scan E v req sid (JObj kvs) keys = ([key], action_handler v key E (JObj kvs) req sid)"
    by blast
  show "\<exists>key. key \<in> set action_names \<and> key \<in> fst ` set kvs
               \<and> action E v keys req sid (JObj kvs)
                   = ([key], action_handler v key E (JObj kvs) req sid)
               \<and> length (fst (action_handler v key E (JObj kvs) req sid)) \<le> 1"
    using k assms calls_action_handler[of v key E "JObj kvs" req sid]
    by (intro exI[of _ key]) (simp add: action_def)
qed

theorem action_dispatches_at_most_once_witness:
  "action quiet_env V10 action_names (request_of user_context [] []) ''7''
       (JObj [(''migrate'', JObj []), (''reboot'', JObj [(''type'', JStr ''HARD'')])])
     = ([''reboot''], [Compute ''reboot'' user_context [JStr ''7'']], Inr (Response 202 []))
   \<and> action quiet_env V10 action_names (request_of user_context [] []) ''7''
       (JObj [(''foo'', JObj [])])
     = ([], [], Inl (HTTPException 501))"
proof -
  have a: "set action_names \<inter> fst ` set [(''foo'', JObj [])] = {}"
    by (simp add: action_names_def)
  have r: "action quiet_env V10 action_names (request_of user_context [] []) ''7''
       (JObj [(''migrate'', JObj []), (''reboot'', JObj [(''type'', JStr ''HARD'')])])
     = ([''reboot''], [Compute ''reboot'' user_context [JStr ''7'']], Inr (Response 202 []))"
    by (simp add: action_def action_names_def action_handler_def action_reboot_def has_arg_def
        get_arg_def bindE_def quiet_env_def request_of_def)
  show ?thesis
    using action_dispatches_at_most_once
      [of action_names quiet_env V10 "request_of user_context [] []" "''7''"
          "JObj [(''foo'', JObj [])]" "[(''foo'', JObj [])]"] a r
    by simp
qed

end
